theory Spec2Isabelle
  imports Main
begin

section \<open>JavaScript values\<close>

text \<open>
  The bridge is an Express application in two variants:
  \<^verbatim>\<open>src/seal-node-app/server.js\<close> (definitions suffixed \<open>_app\<close>) and
  \<^verbatim>\<open>src/unnamed/part_000\<close> (definitions suffixed \<open>_v3\<close>, after its start-up banner).
  Everything the handlers touch is a JSON-shaped JavaScript value.

  Numbers are the integers and \<open>NaN\<close>; fractions, infinities and the rounding of doubles
  are outside the model. Strings are lists of 8-bit characters, so the text is ASCII (or
  the bytes of its UTF-8 form). An object is the list of its own properties; a property is
  looked up with \<open>map_of\<close>.
\<close>

datatype jsnum = NaN | Fin int

datatype jsval =
    JUndefined
  | JNull
  | JBool bool
  | JNum jsnum
  | JStr string
  | JArr "jsval list"
  | JObj "(string \<times> jsval) list"

text \<open>
  What a \<^verbatim>\<open>throw\<close> carries: the kind of error and its message. The wording of a
  \<^verbatim>\<open>TypeError\<close> is the engine's; no property below depends on it.
\<close>

datatype exn = TypeError string | FetchError string

fun exn_message :: "exn \<Rightarrow> string" where
  "exn_message (TypeError m) = m"
| "exn_message (FetchError m) = m"

fun exn_name :: "exn \<Rightarrow> string" where
  "exn_name (TypeError m) = ''TypeError''"
| "exn_name (FetchError m) = ''FetchError''"

text \<open>\<^verbatim>\<open>err?.message || String(err)\<close>: an error without a message prints as its name.\<close>

definition error_text :: "exn \<Rightarrow> string" where
  "error_text e = (if exn_message e \<noteq> [] then exn_message e else exn_name e)"

text \<open>Truthiness, the test behind \<^verbatim>\<open>!x\<close>, \<^verbatim>\<open>x || y\<close> and \<^verbatim>\<open>x ? a : b\<close>.\<close>

fun truthy_num :: "jsnum \<Rightarrow> bool" where
  "truthy_num NaN = False"
| "truthy_num (Fin n) = (n \<noteq> 0)"

fun truthy :: "jsval \<Rightarrow> bool" where
  "truthy JUndefined = False"
| "truthy JNull = False"
| "truthy (JBool b) = b"
| "truthy (JNum n) = truthy_num n"
| "truthy (JStr s) = (s \<noteq> [])"
| "truthy (JArr _) = True"
| "truthy (JObj _) = True"

definition or_else :: "jsval \<Rightarrow> jsval \<Rightarrow> jsval" where
  "or_else a b = (if truthy a then a else b)"

text \<open>
  Property access. \<^verbatim>\<open>v.k\<close> throws on \<^verbatim>\<open>null\<close> and \<^verbatim>\<open>undefined\<close>; \<^verbatim>\<open>v?.k\<close> gives
  \<^verbatim>\<open>undefined\<close> there. None of the names the handlers read is a built-in property of
  strings, arrays, numbers or booleans, so on those the answer is \<^verbatim>\<open>undefined\<close>.
\<close>

fun own_prop :: "(string \<times> jsval) list \<Rightarrow> string \<Rightarrow> jsval" where
  "own_prop kvs k = (case map_of kvs k of None \<Rightarrow> JUndefined | Some v \<Rightarrow> v)"

fun get_prop :: "jsval \<Rightarrow> string \<Rightarrow> exn + jsval" where
  "get_prop JUndefined k = Inl (TypeError (''Cannot read properties of undefined (reading '' @ k @ '')''))"
| "get_prop JNull k = Inl (TypeError (''Cannot read properties of null (reading '' @ k @ '')''))"
| "get_prop (JObj kvs) k = Inr (own_prop kvs k)"
| "get_prop _ k = Inr JUndefined"

fun opt_prop :: "jsval \<Rightarrow> string \<Rightarrow> jsval" where
  "opt_prop (JObj kvs) k = own_prop kvs k"
| "opt_prop _ k = JUndefined"

fun isArray :: "jsval \<Rightarrow> bool" where
  "isArray (JArr _) = True"
| "isArray _ = False"

fun elems :: "jsval \<Rightarrow> jsval list" where
  "elems (JArr xs) = xs"
| "elems _ = []"

subsection \<open>Sequencing computations that may throw\<close>

fun bind_exn :: "exn + 'a \<Rightarrow> ('a \<Rightarrow> exn + 'b) \<Rightarrow> exn + 'b" where
  "bind_exn (Inl e) f = Inl e"
| "bind_exn (Inr x) f = f x"

fun map_exn :: "('a \<Rightarrow> exn + 'b) \<Rightarrow> 'a list \<Rightarrow> exn + 'b list" where
  "map_exn f [] = Inr []"
| "map_exn f (x # xs) =
     bind_exn (f x) (\<lambda>y. bind_exn (map_exn f xs) (\<lambda>ys. Inr (y # ys)))"

subsection \<open>Strings\<close>

text \<open>\<^verbatim>\<open>trim\<close> removes white space at both ends; in ASCII that is TAB, LF, VT, FF, CR and SP.\<close>

definition is_ws :: "char \<Rightarrow> bool" where
  "is_ws c = (of_char c \<in> {9::nat, 10, 11, 12, 13, 32})"

definition trim :: "string \<Rightarrow> string" where
  "trim s = rev (dropWhile is_ws (rev (dropWhile is_ws s)))"

definition lower_char :: "char \<Rightarrow> char" where
  "lower_char c =
     (if 65 \<le> (of_char c :: nat) \<and> (of_char c :: nat) \<le> 90
      then char_of (of_char c + (32::nat)) else c)"

definition toLowerCase :: "string \<Rightarrow> string" where
  "toLowerCase s = map lower_char s"

fun starts_with :: "string \<Rightarrow> string \<Rightarrow> bool" where
  "starts_with s [] = True"
| "starts_with [] (c # cs) = False"
| "starts_with (d # ds) (c # cs) = (d = c \<and> starts_with ds cs)"

text \<open>\<^verbatim>\<open>s.includes(sub)\<close>: \<open>sub\<close> occurs in \<open>s\<close> as a contiguous run.\<close>

fun includes_str :: "string \<Rightarrow> string \<Rightarrow> bool" where
  "includes_str [] sub = (sub = [])"
| "includes_str (c # cs) sub = (starts_with (c # cs) sub \<or> includes_str cs sub)"

text \<open>
  Decimal rendering of an integer, as a template literal or \<^verbatim>\<open>toString\<close> prints it
  (JavaScript prints every digit of an integer below \<open>10\<^sup>2\<^sup>1\<close> in magnitude).
\<close>

definition digit_char :: "nat \<Rightarrow> char" where
  "digit_char d = char_of (48 + d)"

fun show_nat :: "nat \<Rightarrow> string" where
  "show_nat n = (if n < 10 then [digit_char n] else show_nat (n div 10) @ [digit_char (n mod 10)])"

declare show_nat.simps [simp del]

definition show_jsnum :: "jsnum \<Rightarrow> string" where
  "show_jsnum x =
     (case x of NaN \<Rightarrow> ''NaN''
      | Fin n \<Rightarrow> if n < 0 then ''-'' @ show_nat (nat (- n)) else show_nat (nat n))"

text \<open>
  \<^verbatim>\<open>Number(s)\<close> on a string: white space is trimmed, the empty string is 0, an optionally
  signed run of decimal digits is that integer and any other text is \<open>NaN\<close>. Literals
  with a fraction, an exponent, a radix prefix or \<^verbatim>\<open>Infinity\<close> denote numbers that the
  type \<open>jsnum\<close> does not hold; they are not inputs of this model.
\<close>

definition is_digit :: "char \<Rightarrow> bool" where
  "is_digit c = (48 \<le> (of_char c :: nat) \<and> (of_char c :: nat) \<le> 57)"

definition digits_val :: "string \<Rightarrow> nat" where
  "digits_val ds = foldl (\<lambda>acc c. 10 * acc + (of_char c - 48)) 0 ds"

definition unsigned_number :: "string \<Rightarrow> jsnum option" where
  "unsigned_number ds =
     (if ds \<noteq> [] \<and> list_all is_digit ds then Some (Fin (int (digits_val ds))) else None)"

definition StringToNumber :: "string \<Rightarrow> jsnum" where
  "StringToNumber s =
     (case trim s of
        [] \<Rightarrow> Fin 0
      | c # cs \<Rightarrow>
          if c = CHR ''-'' then
            (case unsigned_number cs of Some (Fin n) \<Rightarrow> Fin (- n) | _ \<Rightarrow> NaN)
          else if c = CHR ''+'' then
            (case unsigned_number cs of Some x \<Rightarrow> x | None \<Rightarrow> NaN)
          else
            (case unsigned_number (c # cs) of Some x \<Rightarrow> x | None \<Rightarrow> NaN))"

text \<open>
  \<^verbatim>\<open>toString\<close> and \<^verbatim>\<open>String(v)\<close>. An array joins the strings of its elements with commas,
  \<^verbatim>\<open>null\<close> and \<^verbatim>\<open>undefined\<close> elements printing as nothing. A plain object prints as
  \<^verbatim>\<open>[object Object]\<close>, unless it has an own property \<^verbatim>\<open>toString\<close>: a JSON value is
  never a function, so the conversion throws. Called as a method on \<^verbatim>\<open>null\<close> or
  \<^verbatim>\<open>undefined\<close> it throws as well.
\<close>

fun join_comma :: "string list \<Rightarrow> string" where
  "join_comma [] = []"
| "join_comma [s] = s"
| "join_comma (s # t # ts) = s @ '','' @ join_comma (t # ts)"

fun toString :: "jsval \<Rightarrow> exn + string"
  and elem_strings :: "jsval list \<Rightarrow> exn + string list" where
  "toString JUndefined = Inl (TypeError ''Cannot read properties of undefined (reading toString)'')"
| "toString JNull = Inl (TypeError ''Cannot read properties of null (reading toString)'')"
| "toString (JBool b) = Inr (if b then ''true'' else ''false'')"
| "toString (JNum n) = Inr (show_jsnum n)"
| "toString (JStr s) = Inr s"
| "toString (JArr xs) = bind_exn (elem_strings xs) (\<lambda>ss. Inr (join_comma ss))"
| "toString (JObj kvs) =
     (case map_of kvs ''toString'' of
        None \<Rightarrow> Inr ''[object Object]''
      | Some _ \<Rightarrow> Inl (TypeError ''toString is not a function''))"
| "elem_strings [] = Inr []"
| "elem_strings (x # xs) =
     bind_exn (if x = JNull \<or> x = JUndefined then Inr [] else toString x)
       (\<lambda>s. bind_exn (elem_strings xs) (\<lambda>ss. Inr (s # ss)))"

text \<open>\<^verbatim>\<open>Number(v)\<close> on any value; arrays and objects go through their string.\<close>

fun ToNumber :: "jsval \<Rightarrow> exn + jsnum" where
  "ToNumber JUndefined = Inr NaN"
| "ToNumber JNull = Inr (Fin 0)"
| "ToNumber (JBool b) = Inr (Fin (if b then 1 else 0))"
| "ToNumber (JNum n) = Inr n"
| "ToNumber (JStr s) = Inr (StringToNumber s)"
| "ToNumber v = bind_exn (toString v) (\<lambda>s. Inr (StringToNumber s))"

text \<open>\<^verbatim>\<open>v.trim()\<close>: only a string has the method.\<close>

fun trim_method :: "jsval \<Rightarrow> exn + string" where
  "trim_method (JStr s) = Inr (trim s)"
| "trim_method _ = Inl (TypeError ''trim is not a function'')"

text \<open>
  \<^verbatim>\<open>encodeURIComponent\<close>: letters, digits and \<^verbatim>\<open>- _ . ! ~ * ' ( )\<close> stay, every other
  byte becomes \<^verbatim>\<open>%XX\<close>.
\<close>

definition hex_digit :: "nat \<Rightarrow> char" where
  "hex_digit d = (if d < 10 then char_of (48 + d) else char_of (55 + d))"

definition is_unreserved :: "char \<Rightarrow> bool" where
  "is_unreserved c =
     (let n = (of_char c :: nat) in
        (65 \<le> n \<and> n \<le> 90) \<or> (97 \<le> n \<and> n \<le> 122) \<or> (48 \<le> n \<and> n \<le> 57)
        \<or> c \<in> set ''-_.!~*()'' \<or> n = 39)"

definition encode_char :: "char \<Rightarrow> string" where
  "encode_char c =
     (if is_unreserved c then [c]
      else [CHR ''%'', hex_digit (of_char c div 16), hex_digit (of_char c mod 16)])"

definition encodeURIComponent :: "string \<Rightarrow> string" where
  "encodeURIComponent s = concat (map encode_char s)"

section \<open>The process and its surroundings\<close>

text \<open>\<^verbatim>\<open>process.env\<close>: a variable that is not set reads as \<^verbatim>\<open>undefined\<close>.\<close>

record env =
  BRIDGE_BEARER :: "string option"
  SEAL_TOKEN :: "string option"

text \<open>A value of the environment inside a template literal.\<close>

definition template_env :: "string option \<Rightarrow> string" where
  "template_env v = (case v of None \<Rightarrow> ''undefined'' | Some s \<Rightarrow> s)"

text \<open>
  The parts of an Express request that the program reads: the \<^verbatim>\<open>Authorization\<close> header,
  \<^verbatim>\<open>req.query.email\<close>, \<^verbatim>\<open>req.params.id\<close> and the parsed JSON body.
\<close>

record request =
  authorization :: "string option"
  query_email :: jsval
  params_id :: string
  req_body :: jsval

text \<open>\<^verbatim>\<open>res.status(c).json(v)\<close>.\<close>

record response =
  res_status :: nat
  res_body :: jsval

definition respond :: "nat \<Rightarrow> jsval \<Rightarrow> response" where
  "respond c v = \<lparr>res_status = c, res_body = v\<rparr>"

text \<open>
  What \<^verbatim>\<open>fetch\<close> is given and what it gives back. The request body is kept as the value
  handed to \<^verbatim>\<open>JSON.stringify\<close>. A response carries its status, its
  \<^verbatim>\<open>content-type\<close> header, and what \<^verbatim>\<open>resp.json()\<close> and \<^verbatim>\<open>resp.text()\<close> resolve to
  (\<open>None\<close> when the promise rejects). \<^verbatim>\<open>fetch\<close> itself rejects on a transport failure.
\<close>

record fetch_init =
  init_method :: "string option"
  init_body :: "jsval option"

record seal_call =
  call_url :: string
  call_method :: "string option"
  call_headers :: "(string \<times> string option) list"
  call_body :: "jsval option"

record fetch_response =
  resp_status :: nat
  resp_content_type :: "string option"
  resp_json :: "jsval option"
  resp_text :: "string option"

datatype fetch_outcome = Rejected string | Resolved fetch_response

type_synonym upstream = "seal_call \<Rightarrow> fetch_outcome"

text \<open>\<^verbatim>\<open>resp.ok\<close> of node-fetch: the status is in the range 200 to 299.\<close>

definition resp_ok :: "fetch_response \<Rightarrow> bool" where
  "resp_ok r = (200 \<le> resp_status r \<and> resp_status r < 300)"

section \<open>Auth (Bearer)\<close>

text \<open>
  \<open>checkAuth\<close> answers with \<open>Some\<close> response when it sends the 401 itself and with
  \<open>None\<close> when it calls \<^verbatim>\<open>next()\<close>. A route registered as
  \<^verbatim>\<open>app.put(path, checkAuth, handler)\<close> is \<open>guarded\<close>: the handler runs only after
  \<^verbatim>\<open>next()\<close>. Every route returns its response and the list of calls it made upstream.
\<close>

definition checkAuth :: "env \<Rightarrow> request \<Rightarrow> response option" where
  "checkAuth ev req =
     (let expected = ''Bearer '' @ template_env (BRIDGE_BEARER ev) in
      if authorization req \<noteq> Some expected
      then Some (respond 401 (JObj [(''error'', JStr ''Unauthorized'')]))
      else None)"

definition guarded ::
  "env \<Rightarrow> (request \<Rightarrow> response \<times> seal_call list) \<Rightarrow> request \<Rightarrow> response \<times> seal_call list" where
  "guarded ev handler req =
     (case checkAuth ev req of Some r \<Rightarrow> (r, []) | None \<Rightarrow> handler req)"

section \<open>Helpers: callSeal\<close>

definition SEAL_BASE :: string where
  "SEAL_BASE = ''https://app.sealsubscriptions.com/shopify/merchant/api''"

record seal_result =
  sr_ok :: bool
  sr_status :: nat
  sr_body :: jsval

definition no_init :: fetch_init where
  "no_init = \<lparr>init_method = None, init_body = None\<rparr>"

definition put_init :: "jsval \<Rightarrow> fetch_init" where
  "put_init v = \<lparr>init_method = Some ''PUT'', init_body = Some v\<rparr>"

definition seal_request :: "env \<Rightarrow> string \<Rightarrow> fetch_init \<Rightarrow> seal_call" where
  "seal_request ev path init =
     \<lparr>call_url = SEAL_BASE @ path,
      call_method = init_method init,
      call_headers = [(''Content-Type'', Some ''application/json''),
                      (''X-Seal-Token'', SEAL_TOKEN ev)],
      call_body = init_body init\<rparr>"

definition read_body :: "fetch_response \<Rightarrow> jsval" where
  "read_body resp =
     (let ct = (case resp_content_type resp of None \<Rightarrow> [] | Some c \<Rightarrow> c) in
      if includes_str ct ''application/json''
      then (case resp_json resp of None \<Rightarrow> JObj [] | Some v \<Rightarrow> v)
      else JObj [(''non_json'', JStr (case resp_text resp of None \<Rightarrow> [] | Some t \<Rightarrow> t))])"

text \<open>\<open>callSeal\<close> returns what the caller gets, or the exception, and the call it issued.\<close>

definition callSeal ::
  "env \<Rightarrow> upstream \<Rightarrow> string \<Rightarrow> fetch_init \<Rightarrow> (exn + seal_result) \<times> seal_call" where
  "callSeal ev up path init =
     (let c = seal_request ev path init in
      (case up c of
         Rejected m \<Rightarrow> Inl (FetchError m)
       | Resolved resp \<Rightarrow>
           Inr \<lparr>sr_ok = resp_ok resp, sr_status = resp_status resp, sr_body = read_body resp\<rparr>,
       c))"

section \<open>Response bodies\<close>

definition status_num :: "nat \<Rightarrow> jsval" where
  "status_num n = JNum (Fin (int n))"

definition upstream_error :: "seal_result \<Rightarrow> jsval" where
  "upstream_error r =
     JObj [(''reason'', JStr ''upstream_error''),
           (''status'', status_num (sr_status r)),
           (''body'', sr_body r)]"

definition bridge_exception :: "exn \<Rightarrow> jsval" where
  "bridge_exception e =
     JObj [(''reason'', JStr ''bridge_exception''), (''message'', JStr (error_text e))]"

text \<open>The \<^verbatim>\<open>catch\<close> of the three PUT handlers, and the one of the list handler.\<close>

definition catch_put :: "(exn + response) \<times> seal_call list \<Rightarrow> response \<times> seal_call list" where
  "catch_put t =
     (case t of
        (Inr r, cs) \<Rightarrow> (r, cs)
      | (Inl e, cs) \<Rightarrow> (respond 200 (JObj [(''error'', bridge_exception e)]), cs))"

definition catch_list :: "(exn + response) \<times> seal_call list \<Rightarrow> response \<times> seal_call list" where
  "catch_list t =
     (case t of
        (Inr r, cs) \<Rightarrow> (r, cs)
      | (Inl e, cs) \<Rightarrow>
          (respond 200 (JObj [(''subscriptions'', JArr []), (''error'', bridge_exception e)]), cs))"

section \<open>Healthcheck\<close>

definition health :: "request \<Rightarrow> response \<times> seal_call list" where
  "health req = (respond 200 (JObj [(''ok'', JBool True)]), [])"

section \<open>GET /api/subscriptions\<close>

text \<open>The envelope probe, in the order of each variant.\<close>

definition extract_list_app :: "jsval \<Rightarrow> jsval list" where
  "extract_list_app body =
     (if isArray (opt_prop (opt_prop body ''payload'') ''subscriptions'')
        then elems (opt_prop (opt_prop body ''payload'') ''subscriptions'')
      else if isArray (opt_prop body ''subscriptions'') then elems (opt_prop body ''subscriptions'')
      else if isArray (opt_prop body ''payload'') then elems (opt_prop body ''payload'')
      else [])"

definition extract_list_v3 :: "jsval \<Rightarrow> jsval list" where
  "extract_list_v3 body =
     (if isArray (opt_prop body ''payload'') then elems (opt_prop body ''payload'')
      else if isArray (opt_prop body ''subscriptions'') then elems (opt_prop body ''subscriptions'')
      else if isArray (opt_prop (opt_prop body ''payload'') ''subscriptions'')
        then elems (opt_prop (opt_prop body ''payload'') ''subscriptions'')
      else [])"

text \<open>\<^verbatim>\<open>v.map(f)\<close>: only an array has the method.\<close>

definition map_method :: "jsval \<Rightarrow> (jsval \<Rightarrow> exn + jsval) \<Rightarrow> exn + jsval" where
  "map_method v f =
     (case v of
        JArr xs \<Rightarrow> bind_exn (map_exn f xs) (\<lambda>ys. Inr (JArr ys))
      | _ \<Rightarrow> Inl (TypeError ''map is not a function''))"

definition normalize_item :: "jsval \<Rightarrow> exn + jsval" where
  "normalize_item i =
     bind_exn (get_prop i ''title'') (\<lambda>title.
     bind_exn (get_prop i ''quantity'') (\<lambda>quantity.
     bind_exn (get_prop i ''id'') (\<lambda>ident.
       Inr (JObj [(''title'', title), (''qty'', quantity), (''id'', ident)]))))"

definition normalize_sub :: "jsval \<Rightarrow> exn + jsval" where
  "normalize_sub s =
     bind_exn (get_prop s ''id'') (\<lambda>ident.
     bind_exn (get_prop s ''status'') (\<lambda>st.
     bind_exn (get_prop s ''next_billing'') (\<lambda>nb.
     bind_exn (get_prop s ''next_order_datetime'') (\<lambda>nod.
     bind_exn (get_prop s ''next_charge_at'') (\<lambda>nca.
     bind_exn (get_prop s ''items'') (\<lambda>its.
     bind_exn (map_method (or_else its (JArr [])) normalize_item) (\<lambda>items.
     bind_exn (get_prop s ''discount_codes'') (\<lambda>dc.
       Inr (JObj [(''id'', ident),
                  (''status'', st),
                  (''next_charge_at'', or_else nb (or_else nod (or_else nca JNull))),
                  (''items'', items),
                  (''discounts'', or_else dc (JArr []))])))))))))"

definition rawEmail_of :: "request \<Rightarrow> exn + string" where
  "rawEmail_of req =
     bind_exn (toString (or_else (query_email req) (JStr []))) (\<lambda>s. Inr (trim s))"

definition missing_email :: jsval where
  "missing_email =
     JObj [(''subscriptions'', JArr []), (''error'', JObj [(''reason'', JStr ''missing_email'')])]"

text \<open>
  The body of the \<^verbatim>\<open>try\<close>. The two variants differ in the envelope probe only, which is
  the first argument.
\<close>

definition get_subscriptions_try ::
  "(jsval \<Rightarrow> jsval list) \<Rightarrow> env \<Rightarrow> upstream \<Rightarrow> request \<Rightarrow> (exn + response) \<times> seal_call list" where
  "get_subscriptions_try extract ev up req =
     (case rawEmail_of req of
        Inl e \<Rightarrow> (Inl e, [])
      | Inr rawEmail \<Rightarrow>
          if rawEmail = [] then (Inr (respond 200 missing_email), [])
          else
            (case callSeal ev up
                    (''/subscriptions?query='' @ encodeURIComponent rawEmail @ ''&with-items=true'')
                    no_init of
               (Inl e, c) \<Rightarrow> (Inl e, [c])
             | (Inr r, c) \<Rightarrow>
                 if \<not> sr_ok r then
                   (Inr (respond 200
                      (JObj [(''subscriptions'', JArr []), (''error'', upstream_error r)])), [c])
                 else
                   (case map_exn normalize_sub (extract (sr_body r)) of
                      Inl e \<Rightarrow> (Inl e, [c])
                    | Inr subs \<Rightarrow>
                        (Inr (respond 200 (JObj [(''subscriptions'', JArr subs)])), [c]))))"

definition get_subscriptions_app :: "env \<Rightarrow> upstream \<Rightarrow> request \<Rightarrow> response \<times> seal_call list" where
  "get_subscriptions_app ev up req = catch_list (get_subscriptions_try extract_list_app ev up req)"

definition get_subscriptions_v3 :: "env \<Rightarrow> upstream \<Rightarrow> request \<Rightarrow> response \<times> seal_call list" where
  "get_subscriptions_v3 ev up req = catch_list (get_subscriptions_try extract_list_v3 ev up req)"

section \<open>PUT /api/subscription/:id\<close>

definition allowed_actions :: "string list" where
  "allowed_actions = [''pause'', ''resume'', ''cancel'', ''reactivate'']"

text \<open>
  \<^verbatim>\<open>seal-node-app/server.js\<close>: the action is lower-cased and checked against the list;
  the call goes to \<^verbatim>\<open>/subscription\<close> with the id in the body.
\<close>

definition put_subscription_try_app ::
  "env \<Rightarrow> upstream \<Rightarrow> request \<Rightarrow> (exn + response) \<times> seal_call list" where
  "put_subscription_try_app ev up req =
     (let ident = StringToNumber (params_id req) in
      case bind_exn (toString (or_else (opt_prop (req_body req) ''action'') (JStr [])))
             (\<lambda>s. Inr (toLowerCase s)) of
        Inl e \<Rightarrow> (Inl e, [])
      | Inr action \<Rightarrow>
          if \<not> truthy_num ident \<or> action = [] then
            (Inr (respond 400 (JObj [(''error'', JStr ''Missing id or action'')])), [])
          else if action \<notin> set allowed_actions then
            (Inr (respond 400
               (JObj [(''error'',
                  JStr ''Invalid action. Must be: pause, resume, cancel, or reactivate'')])), [])
          else
            (let sealPath = ''/subscription'';
                 payload = JObj [(''id'', JNum ident), (''action'', JStr action)] in
             case callSeal ev up sealPath (put_init payload) of
               (Inl e, c) \<Rightarrow> (Inl e, [c])
             | (Inr r, c) \<Rightarrow>
                 if \<not> sr_ok r then
                   (Inr (respond 200
                      (JObj [(''error'',
                         JObj [(''reason'', JStr ''upstream_error''),
                               (''status'', status_num (sr_status r)),
                               (''body'', sr_body r),
                               (''attempted_endpoint'', JStr (SEAL_BASE @ sealPath)),
                               (''request_payload'', payload)])])), [c])
                 else (Inr (respond 200 (sr_body r)), [c])))"

definition put_subscription_app :: "env \<Rightarrow> upstream \<Rightarrow> request \<Rightarrow> response \<times> seal_call list" where
  "put_subscription_app ev up req = catch_put (put_subscription_try_app ev up req)"

text \<open>
  \<^verbatim>\<open>part_000\<close>: the action is taken as it comes; the call goes to
  \<^verbatim>\<open>/subscriptions/:id\<close> with the action alone in the body.
\<close>

definition put_subscription_try_v3 ::
  "env \<Rightarrow> upstream \<Rightarrow> request \<Rightarrow> (exn + response) \<times> seal_call list" where
  "put_subscription_try_v3 ev up req =
     (let ident = StringToNumber (params_id req) in
      case toString (or_else (opt_prop (req_body req) ''action'') (JStr [])) of
        Inl e \<Rightarrow> (Inl e, [])
      | Inr action \<Rightarrow>
          if \<not> truthy_num ident \<or> action = [] then
            (Inr (respond 400 (JObj [(''error'', JStr ''Missing id or action'')])), [])
          else
            (case callSeal ev up (''/subscriptions/'' @ show_jsnum ident)
                    (put_init (JObj [(''action'', JStr action)])) of
               (Inl e, c) \<Rightarrow> (Inl e, [c])
             | (Inr r, c) \<Rightarrow>
                 if \<not> sr_ok r then
                   (Inr (respond 200 (JObj [(''error'', upstream_error r)])), [c])
                 else (Inr (respond 200 (sr_body r)), [c])))"

definition put_subscription_v3 :: "env \<Rightarrow> upstream \<Rightarrow> request \<Rightarrow> response \<times> seal_call list" where
  "put_subscription_v3 ev up req = catch_put (put_subscription_try_v3 ev up req)"

section \<open>PUT /api/subscription/:id/charge-now\<close>

text \<open>Only \<^verbatim>\<open>part_000\<close> has this route. Both arms of its conditional are \<^verbatim>\<open>"true"\<close>.\<close>

definition charge_now_try_v3 ::
  "env \<Rightarrow> upstream \<Rightarrow> request \<Rightarrow> (exn + response) \<times> seal_call list" where
  "charge_now_try_v3 ev up req =
     (let ident = StringToNumber (params_id req) in
      if \<not> truthy_num ident then
        (Inr (respond 400 (JObj [(''error'', JStr ''Missing id'')])), [])
      else
        (let reset = (if truthy (opt_prop (req_body req) ''reset_schedule'')
                      then JStr ''true'' else JStr ''true'') in
         case callSeal ev up (''/subscriptions/'' @ show_jsnum ident @ ''/charge_now'')
                 (put_init (JObj [(''reset_schedule'', reset)])) of
           (Inl e, c) \<Rightarrow> (Inl e, [c])
         | (Inr r, c) \<Rightarrow>
             if \<not> sr_ok r then
               (Inr (respond 200 (JObj [(''error'', upstream_error r)])), [c])
             else (Inr (respond 200 (sr_body r)), [c])))"

definition charge_now_v3 :: "env \<Rightarrow> upstream \<Rightarrow> request \<Rightarrow> response \<times> seal_call list" where
  "charge_now_v3 ev up req = catch_put (charge_now_try_v3 ev up req)"

section \<open>PUT /api/subscription/:id/reschedule\<close>

text \<open>
  \<^verbatim>\<open>new Date(v)\<close>, read as its time value in milliseconds (\<open>NaN\<close> for an invalid date).
  How a string is read as a date depends on the engine and on the time zone of the
  process, so \<^verbatim>\<open>Date.parse\<close> is a parameter: \<open>None\<close> when the text is no date.
\<close>

type_synonym date_parse = "string \<Rightarrow> int option"

definition time_clip :: "jsnum \<Rightarrow> jsnum" where
  "time_clip x =
     (case x of NaN \<Rightarrow> NaN
      | Fin n \<Rightarrow> if \<bar>n\<bar> \<le> 8640000000000000 then Fin n else NaN)"

definition parsed_time :: "date_parse \<Rightarrow> string \<Rightarrow> jsnum" where
  "parsed_time parse s = (case parse s of None \<Rightarrow> NaN | Some t \<Rightarrow> Fin t)"

fun new_Date :: "date_parse \<Rightarrow> jsval \<Rightarrow> exn + jsnum" where
  "new_Date parse (JStr s) = Inr (parsed_time parse s)"
| "new_Date parse (JNum n) = Inr (time_clip n)"
| "new_Date parse (JBool b) = Inr (Fin (if b then 1 else 0))"
| "new_Date parse JNull = Inr (Fin 0)"
| "new_Date parse JUndefined = Inr NaN"
| "new_Date parse v = bind_exn (toString v) (\<lambda>s. Inr (parsed_time parse s))"

text \<open>\<^verbatim>\<open>new Date(a.date_time || a.datetime || a.scheduled_at || 0)\<close>.\<close>

definition attempt_date :: "date_parse \<Rightarrow> jsval \<Rightarrow> exn + jsnum" where
  "attempt_date parse a =
     bind_exn (get_prop a ''date_time'') (\<lambda>d1.
     bind_exn (get_prop a ''datetime'') (\<lambda>d2.
     bind_exn (get_prop a ''scheduled_at'') (\<lambda>d3.
       new_Date parse (or_else d1 (or_else d2 (or_else d3 (JNum (Fin 0))))))))"

fun num_minus :: "jsnum \<Rightarrow> jsnum \<Rightarrow> jsnum" where
  "num_minus (Fin a) (Fin b) = Fin (a - b)"
| "num_minus _ _ = NaN"

definition compare_attempts :: "date_parse \<Rightarrow> jsval \<Rightarrow> jsval \<Rightarrow> exn + jsnum" where
  "compare_attempts parse a b =
     bind_exn (attempt_date parse a) (\<lambda>dateA.
     bind_exn (attempt_date parse b) (\<lambda>dateB. Inr (num_minus dateA dateB)))"

text \<open>
  \<^verbatim>\<open>arr.sort(cmp)\<close>. The language fixes the result for a consistent comparator: the
  sort is stable, \<open>a\<close> goes after \<open>b\<close> exactly when \<open>cmp a b > 0\<close>, and a \<open>NaN\<close>
  from the comparator counts as 0. Insertion from the right is such a sort. An exception
  of the comparator ends the sort.
\<close>

fun positive :: "jsnum \<Rightarrow> bool" where
  "positive NaN = False"
| "positive (Fin n) = (0 < n)"

fun insert_by :: "('a \<Rightarrow> 'a \<Rightarrow> exn + jsnum) \<Rightarrow> 'a \<Rightarrow> 'a list \<Rightarrow> exn + 'a list" where
  "insert_by cmp x [] = Inr [x]"
| "insert_by cmp x (y # ys) =
     bind_exn (cmp x y) (\<lambda>d.
       if positive d then bind_exn (insert_by cmp x ys) (\<lambda>zs. Inr (y # zs))
       else Inr (x # y # ys))"

fun sort_by :: "('a \<Rightarrow> 'a \<Rightarrow> exn + jsnum) \<Rightarrow> 'a list \<Rightarrow> exn + 'a list" where
  "sort_by cmp [] = Inr []"
| "sort_by cmp (x # xs) = bind_exn (sort_by cmp xs) (insert_by cmp x)"

text \<open>The two-location probe for the attempts.\<close>

definition attempts_of :: "jsval \<Rightarrow> jsval list" where
  "attempts_of body =
     (if isArray (opt_prop body ''payload'') then elems (opt_prop body ''payload'')
      else if isArray (opt_prop body ''attempts'') then elems (opt_prop body ''attempts'')
      else [])"

text \<open>
  \<^verbatim>\<open>if (arr.length > 0) { arr.sort(...); attemptId = Number(arr[0].id); }\<close>: the value
  of \<^verbatim>\<open>attemptId\<close> afterwards. An empty array leaves it as it was.
\<close>

definition first_attempt_id :: "date_parse \<Rightarrow> jsnum \<Rightarrow> jsval list \<Rightarrow> exn + jsnum" where
  "first_attempt_id parse attemptId arr =
     (if arr = [] then Inr attemptId
      else
        bind_exn (sort_by (compare_attempts parse) arr) (\<lambda>sorted.
          case sorted of
            [] \<Rightarrow> Inl (TypeError ''Cannot read properties of undefined (reading id)'')
          | a # _ \<Rightarrow> bind_exn (get_prop a ''id'') ToNumber))"

definition no_billing_attempt_found :: jsval where
  "no_billing_attempt_found =
     JObj [(''error'',
       JObj [(''reason'', JStr ''no_billing_attempt_found''),
             (''message'',
              JStr ''Could not find an upcoming billing attempt for this subscription.'')])]"

text \<open>From \<^verbatim>\<open>if (!attemptId)\<close> after the resolution to the end of the \<^verbatim>\<open>try\<close>.\<close>

definition reschedule_attempt ::
  "env \<Rightarrow> upstream \<Rightarrow> jsnum \<Rightarrow> jsnum \<Rightarrow> string \<Rightarrow> string \<Rightarrow> string \<Rightarrow> jsval \<Rightarrow> seal_call list
     \<Rightarrow> (exn + response) \<times> seal_call list" where
  "reschedule_attempt ev up attemptId subscriptionId date time timezone resetSchedule cs =
     (if \<not> truthy_num attemptId then (Inr (respond 200 no_billing_attempt_found), cs)
      else
        (let payload = JObj [(''id'', JNum attemptId),
                             (''subscription_id'', JNum subscriptionId),
                             (''action'', JStr ''reschedule''),
                             (''date'', JStr date),
                             (''time'', JStr time),
                             (''timezone'', JStr timezone),
                             (''reset_schedule'', resetSchedule)] in
         case callSeal ev up ''/subscription-billing-attempt'' (put_init payload) of
           (Inl e, c) \<Rightarrow> (Inl e, cs @ [c])
         | (Inr updateResp, c) \<Rightarrow>
             if \<not> sr_ok updateResp then
               (Inr (respond 200 (JObj [(''error'', upstream_error updateResp)])), cs @ [c])
             else
               (Inr (respond 200
                  (JObj [(''ok'', JBool True),
                         (''billing_attempt_id'', JNum attemptId),
                         (''result'', sr_body updateResp)])), cs @ [c])))"

text \<open>
  The four values read from the body before anything is checked: \<^verbatim>\<open>date\<close>, \<^verbatim>\<open>time\<close>
  and \<^verbatim>\<open>timezone\<close>, trimmed, and \<^verbatim>\<open>attemptId\<close>. Each of them can throw.
\<close>

definition reschedule_fields :: "request \<Rightarrow> exn + (string \<times> string \<times> string \<times> jsnum)" where
  "reschedule_fields req =
     bind_exn (trim_method (or_else (opt_prop (req_body req) ''date'') (JStr []))) (\<lambda>date.
     bind_exn (trim_method (or_else (opt_prop (req_body req) ''time'') (JStr []))) (\<lambda>time.
     bind_exn (trim_method (or_else (opt_prop (req_body req) ''timezone'') (JStr []))) (\<lambda>timezone.
     bind_exn (if truthy (opt_prop (req_body req) ''attempt_id'')
               then ToNumber (opt_prop (req_body req) ''attempt_id'')
               else Inr (Fin 0)) (\<lambda>attemptId.
       Inr (date, time, timezone, attemptId)))))"

text \<open>
  The block under \<^verbatim>\<open>if (!attemptId)\<close>: it throws, or returns a response early
  (\<open>Inr (Inl r)\<close>), or leaves the attempt id it resolved (\<open>Inr (Inr a)\<close>).
\<close>

definition resolve_attempt ::
  "date_parse \<Rightarrow> env \<Rightarrow> upstream \<Rightarrow> jsnum \<Rightarrow> jsnum
     \<Rightarrow> (exn + response + jsnum) \<times> seal_call list" where
  "resolve_attempt parse ev up subscriptionId attemptId =
     (case callSeal ev up
             (''/subscription-billing-attempts?subscription_id='' @ show_jsnum subscriptionId)
             no_init of
        (Inl e, c) \<Rightarrow> (Inl e, [c])
      | (Inr attemptsResp, c) \<Rightarrow>
          if \<not> sr_ok attemptsResp then
            (Inr (Inl (respond 200 (JObj [(''error'', upstream_error attemptsResp)]))), [c])
          else
            (case first_attempt_id parse attemptId (attempts_of (sr_body attemptsResp)) of
               Inl e \<Rightarrow> (Inl e, [c])
             | Inr resolved \<Rightarrow> (Inr (Inr resolved), [c])))"

text \<open>
  The body of the \<^verbatim>\<open>try\<close>. The two variants differ in how \<^verbatim>\<open>resetSchedule\<close> is
  computed from \<^verbatim>\<open>req.body?.reset_schedule\<close>, which is the first argument.
\<close>

definition reschedule_try ::
  "(jsval \<Rightarrow> jsval) \<Rightarrow> date_parse \<Rightarrow> env \<Rightarrow> upstream \<Rightarrow> request
     \<Rightarrow> (exn + response) \<times> seal_call list" where
  "reschedule_try reset_of parse ev up req =
     (let subscriptionId = StringToNumber (params_id req) in
      if \<not> truthy_num subscriptionId then
        (Inr (respond 400 (JObj [(''error'', JStr ''Missing subscription id'')])), [])
      else
        (case reschedule_fields req of
           Inl e \<Rightarrow> (Inl e, [])
         | Inr (date, time, timezone, attemptId) \<Rightarrow>
             (let resetSchedule = reset_of (opt_prop (req_body req) ''reset_schedule'') in
              if date = [] \<or> time = [] \<or> timezone = [] then
                (Inr (respond 400 (JObj [(''error'', JStr ''Missing date/time/timezone'')])), [])
              else if \<not> truthy_num attemptId then
                (case resolve_attempt parse ev up subscriptionId attemptId of
                   (Inl e, cs) \<Rightarrow> (Inl e, cs)
                 | (Inr (Inl r), cs) \<Rightarrow> (Inr r, cs)
                 | (Inr (Inr resolved), cs) \<Rightarrow>
                     reschedule_attempt ev up resolved subscriptionId
                       date time timezone resetSchedule cs)
              else
                reschedule_attempt ev up attemptId subscriptionId
                  date time timezone resetSchedule [])))"

text \<open>\<^verbatim>\<open>req.body?.reset_schedule !== false\<close> and \<^verbatim>\<open>req.body?.reset_schedule ? "true" : "true"\<close>.\<close>

definition resetSchedule_app :: "jsval \<Rightarrow> jsval" where
  "resetSchedule_app v = JBool (v \<noteq> JBool False)"

definition resetSchedule_v3 :: "jsval \<Rightarrow> jsval" where
  "resetSchedule_v3 v = (if truthy v then JStr ''true'' else JStr ''true'')"

definition reschedule_app ::
  "date_parse \<Rightarrow> env \<Rightarrow> upstream \<Rightarrow> request \<Rightarrow> response \<times> seal_call list" where
  "reschedule_app parse ev up req = catch_put (reschedule_try resetSchedule_app parse ev up req)"

definition reschedule_v3 ::
  "date_parse \<Rightarrow> env \<Rightarrow> upstream \<Rightarrow> request \<Rightarrow> response \<times> seal_call list" where
  "reschedule_v3 parse ev up req = catch_put (reschedule_try resetSchedule_v3 parse ev up req)"

section \<open>The routes\<close>

definition route_get_subscriptions_app where
  "route_get_subscriptions_app ev up = guarded ev (get_subscriptions_app ev up)"

definition route_put_subscription_app where
  "route_put_subscription_app ev up = guarded ev (put_subscription_app ev up)"

definition route_reschedule_app where
  "route_reschedule_app parse ev up = guarded ev (reschedule_app parse ev up)"

definition route_get_subscriptions_v3 where
  "route_get_subscriptions_v3 ev up = guarded ev (get_subscriptions_v3 ev up)"

definition route_put_subscription_v3 where
  "route_put_subscription_v3 ev up = guarded ev (put_subscription_v3 ev up)"

definition route_charge_now_v3 where
  "route_charge_now_v3 ev up = guarded ev (charge_now_v3 ev up)"

definition route_reschedule_v3 where
  "route_reschedule_v3 parse ev up = guarded ev (reschedule_v3 parse ev up)"

section \<open>Concrete surroundings for the examples\<close>

definition example_env :: env where
  "example_env = \<lparr>BRIDGE_BEARER = Some ''s3cret'', SEAL_TOKEN = Some ''tok''\<rparr>"

definition json_response :: "nat \<Rightarrow> jsval \<Rightarrow> fetch_response" where
  "json_response code v =
     \<lparr>resp_status = code, resp_content_type = Some ''application/json; charset=utf-8'',
      resp_json = Some v, resp_text = None\<rparr>"

definition upstream_empty_ok :: upstream where
  "upstream_empty_ok c = Resolved (json_response 200 (JObj []))"

definition example_request :: "string option \<Rightarrow> string \<Rightarrow> jsval \<Rightarrow> request" where
  "example_request auth ident body =
     \<lparr>authorization = auth, query_email = JUndefined, params_id = ident, req_body = body\<rparr>"


definition upstream_rejecting :: upstream where
  "upstream_rejecting c = Rejected ''ECONNREFUSED''"

definition upstream_broken_json :: upstream where
  "upstream_broken_json c = Resolved \<lparr>resp_status = 404,
      resp_content_type = Some ''application/json'', resp_json = None, resp_text = None\<rparr>"

definition upstream_html_error :: upstream where
  "upstream_html_error c = Resolved \<lparr>resp_status = 502,
      resp_content_type = Some ''text/html'', resp_json = None, resp_text = Some ''Bad Gateway''\<rparr>"

definition reschedule_body :: "jsval \<Rightarrow> jsval" where
  "reschedule_body reset =
     JObj [(''date'', JStr ''2025-11-10''), (''time'', JStr ''09:30''),
           (''timezone'', JStr ''America/Chicago''), (''attempt_id'', JNum (Fin 7)),
           (''reset_schedule'', reset)]"

section \<open>Reading an outcome\<close>





section \<open>The scheduled time of an attempt, as the specification words it\<close>






section \<open>The envelope probe of the list operation\<close>

lemma opt_prop_array_undefined: "isArray v \<Longrightarrow> opt_prop v k = JUndefined"
  by (cases v) simp_all

text \<open>
  Claim C1, as amended. When exactly one of \<^verbatim>\<open>payload\<close>, \<^verbatim>\<open>subscriptions\<close> and
  \<^verbatim>\<open>payload.subscriptions\<close> holds an array, both variants extract that array. When
  several do, the variants differ: \<^verbatim>\<open>part_000\<close> takes \<^verbatim>\<open>payload\<close> whenever it is an
  array and \<^verbatim>\<open>subscriptions\<close> before \<^verbatim>\<open>payload.subscriptions\<close>;
  \<^verbatim>\<open>seal-node-app/server.js\<close> takes \<^verbatim>\<open>subscriptions\<close> before \<^verbatim>\<open>payload\<close> and
  \<^verbatim>\<open>payload.subscriptions\<close> before \<^verbatim>\<open>subscriptions\<close>. (An array at \<^verbatim>\<open>payload\<close>
  has no \<^verbatim>\<open>subscriptions\<close>, so these are all the overlaps.)
\<close>

theorem extract_list_probe:
  "(isArray (opt_prop body ''payload'') \<and> \<not> isArray (opt_prop body ''subscriptions'')
      \<longrightarrow> extract_list_app body = elems (opt_prop body ''payload'')
        \<and> extract_list_v3 body = elems (opt_prop body ''payload''))
   \<and> (\<not> isArray (opt_prop body ''payload'') \<and> isArray (opt_prop body ''subscriptions'')
        \<and> \<not> isArray (opt_prop (opt_prop body ''payload'') ''subscriptions'')
      \<longrightarrow> extract_list_app body = elems (opt_prop body ''subscriptions'')
        \<and> extract_list_v3 body = elems (opt_prop body ''subscriptions''))
   \<and> (\<not> isArray (opt_prop body ''payload'') \<and> \<not> isArray (opt_prop body ''subscriptions'')
        \<and> isArray (opt_prop (opt_prop body ''payload'') ''subscriptions'')
      \<longrightarrow> extract_list_app body = elems (opt_prop (opt_prop body ''payload'') ''subscriptions'')
        \<and> extract_list_v3 body = elems (opt_prop (opt_prop body ''payload'') ''subscriptions''))
   \<and> (isArray (opt_prop body ''payload'')
      \<longrightarrow> extract_list_v3 body = elems (opt_prop body ''payload''))
   \<and> (isArray (opt_prop body ''payload'') \<and> isArray (opt_prop body ''subscriptions'')
      \<longrightarrow> extract_list_app body = elems (opt_prop body ''subscriptions''))
   \<and> (isArray (opt_prop body ''subscriptions'')
        \<and> isArray (opt_prop (opt_prop body ''payload'') ''subscriptions'')
      \<longrightarrow> extract_list_app body = elems (opt_prop (opt_prop body ''payload'') ''subscriptions'')
        \<and> extract_list_v3 body = elems (opt_prop body ''subscriptions''))"
proof -
  have nested: "isArray (opt_prop body ''payload'')
      \<Longrightarrow> \<not> isArray (opt_prop (opt_prop body ''payload'') ''subscriptions'')"
    by (simp add: opt_prop_array_undefined)
  show ?thesis
    using nested by (auto simp: extract_list_app_def extract_list_v3_def)
qed

theorem extract_list_probe_witness:
  "extract_list_app (JObj [(''payload'', JArr [JStr ''a''])]) = [JStr ''a'']
   \<and> extract_list_v3 (JObj [(''payload'', JArr [JStr ''a''])]) = [JStr ''a'']
   \<and> extract_list_app (JObj [(''subscriptions'', JArr [JStr ''b''])]) = [JStr ''b'']
   \<and> extract_list_v3 (JObj [(''subscriptions'', JArr [JStr ''b''])]) = [JStr ''b'']
   \<and> extract_list_app (JObj [(''payload'', JObj [(''subscriptions'', JArr [JStr ''c''])])])
       = [JStr ''c'']
   \<and> extract_list_v3 (JObj [(''payload'', JObj [(''subscriptions'', JArr [JStr ''c''])])])
       = [JStr ''c'']
   \<and> extract_list_v3 (JObj [(''payload'', JArr [JStr ''a'']), (''subscriptions'', JArr [JStr ''b''])])
       = [JStr ''a'']
   \<and> extract_list_app (JObj [(''payload'', JArr [JStr ''a'']), (''subscriptions'', JArr [JStr ''b''])])
       = [JStr ''b'']
   \<and> extract_list_app (JObj [(''subscriptions'', JArr [JStr ''b'']),
                              (''payload'', JObj [(''subscriptions'', JArr [JStr ''c''])])])
       = [JStr ''c'']
   \<and> extract_list_v3 (JObj [(''subscriptions'', JArr [JStr ''b'']),
                             (''payload'', JObj [(''subscriptions'', JArr [JStr ''c''])])])
       = [JStr ''b'']"
  using extract_list_probe [of "JObj [(''payload'', JArr [JStr ''a''])]"]
    extract_list_probe [of "JObj [(''subscriptions'', JArr [JStr ''b''])]"]
    extract_list_probe [of "JObj [(''payload'', JObj [(''subscriptions'', JArr [JStr ''c''])])]"]
    extract_list_probe [of "JObj [(''payload'', JArr [JStr ''a'']), (''subscriptions'', JArr [JStr ''b''])]"]
    extract_list_probe [of "JObj [(''subscriptions'', JArr [JStr ''b'']),
                              (''payload'', JObj [(''subscriptions'', JArr [JStr ''c''])])]"]
  by simp

text \<open>
  With an array at \<^verbatim>\<open>payload\<close> and another at \<^verbatim>\<open>subscriptions\<close>,
  \<^verbatim>\<open>seal-node-app/server.js\<close> does not select the one at \<^verbatim>\<open>payload\<close>.
\<close>

theorem payload_priority_counterexample:
  "isArray (opt_prop (JObj [(''payload'', JArr [JStr ''a'']), (''subscriptions'', JArr [JStr ''b''])])
      ''payload'')
   \<and> isArray (opt_prop (JObj [(''payload'', JArr [JStr ''a'']), (''subscriptions'', JArr [JStr ''b''])])
      ''subscriptions'')
   \<and> extract_list_app (JObj [(''payload'', JArr [JStr ''a'']), (''subscriptions'', JArr [JStr ''b''])])
       \<noteq> elems (opt_prop
            (JObj [(''payload'', JArr [JStr ''a'']), (''subscriptions'', JArr [JStr ''b''])])
            ''payload'')"
  by (simp add: extract_list_app_def)

section \<open>The authentication guard\<close>

text \<open>
  Claim C2. A request whose \<^verbatim>\<open>Authorization\<close> header is absent, or differs in any way
  from \<^verbatim>\<open>Bearer <secret>\<close>, gets 401 with the body \<^verbatim>\<open>{error: "Unauthorized"}\<close> and no
  call goes upstream. This holds whatever the guarded handler is, hence the handler does
  not run; it is stated for every authenticated route of both variants as well.
\<close>

theorem checkAuth_rejects:
  "authorization req \<noteq> Some (''Bearer '' @ template_env (BRIDGE_BEARER ev)) \<Longrightarrow>
     guarded ev handler req = (respond 401 (JObj [(''error'', JStr ''Unauthorized'')]), [])
     \<and> route_get_subscriptions_app ev up req
         = (respond 401 (JObj [(''error'', JStr ''Unauthorized'')]), [])
     \<and> route_put_subscription_app ev up req
         = (respond 401 (JObj [(''error'', JStr ''Unauthorized'')]), [])
     \<and> route_reschedule_app parse ev up req
         = (respond 401 (JObj [(''error'', JStr ''Unauthorized'')]), [])
     \<and> route_get_subscriptions_v3 ev up req
         = (respond 401 (JObj [(''error'', JStr ''Unauthorized'')]), [])
     \<and> route_put_subscription_v3 ev up req
         = (respond 401 (JObj [(''error'', JStr ''Unauthorized'')]), [])
     \<and> route_charge_now_v3 ev up req
         = (respond 401 (JObj [(''error'', JStr ''Unauthorized'')]), [])
     \<and> route_reschedule_v3 parse ev up req
         = (respond 401 (JObj [(''error'', JStr ''Unauthorized'')]), [])"
  by (simp add: guarded_def checkAuth_def route_get_subscriptions_app_def
      route_put_subscription_app_def route_reschedule_app_def route_get_subscriptions_v3_def
      route_put_subscription_v3_def route_charge_now_v3_def route_reschedule_v3_def)

text \<open>
  No header, a lower-case scheme and a trailing blank are all refused, on a request that
  reaches upstream once the header is right.
\<close>

theorem checkAuth_rejects_witness:
  "route_charge_now_v3 example_env upstream_empty_ok (example_request None ''5'' (JObj []))
     = (respond 401 (JObj [(''error'', JStr ''Unauthorized'')]), [])
   \<and> route_charge_now_v3 example_env upstream_empty_ok
        (example_request (Some ''bearer s3cret'') ''5'' (JObj []))
     = (respond 401 (JObj [(''error'', JStr ''Unauthorized'')]), [])
   \<and> route_charge_now_v3 example_env upstream_empty_ok
        (example_request (Some ''Bearer s3cret '') ''5'' (JObj []))
     = (respond 401 (JObj [(''error'', JStr ''Unauthorized'')]), [])
   \<and> snd (route_charge_now_v3 example_env upstream_empty_ok
        (example_request (Some ''Bearer s3cret'') ''5'' (JObj []))) \<noteq> []"
proof -
  have a: "authorization (example_request None ''5'' (JObj []))
      \<noteq> Some (''Bearer '' @ template_env (BRIDGE_BEARER example_env))"
    by (simp add: example_request_def)
  have b: "authorization (example_request (Some ''bearer s3cret'') ''5'' (JObj []))
      \<noteq> Some (''Bearer '' @ template_env (BRIDGE_BEARER example_env))"
    by (simp add: example_request_def)
  have c: "authorization (example_request (Some ''Bearer s3cret '') ''5'' (JObj []))
      \<noteq> Some (''Bearer '' @ template_env (BRIDGE_BEARER example_env))"
    by (simp add: example_request_def example_env_def template_env_def)
  have d: "snd (route_charge_now_v3 example_env upstream_empty_ok
        (example_request (Some ''Bearer s3cret'') ''5'' (JObj []))) \<noteq> []"
    by code_simp
  show ?thesis
    using checkAuth_rejects [OF a, of "charge_now_v3 example_env upstream_empty_ok" upstream_empty_ok]
      checkAuth_rejects [OF b, of "charge_now_v3 example_env upstream_empty_ok" upstream_empty_ok]
      checkAuth_rejects [OF c, of "charge_now_v3 example_env upstream_empty_ok" upstream_empty_ok]
      d
    by simp
qed

section \<open>The list operation without an email\<close>




section \<open>Charge now\<close>



section \<open>The gateway\<close>

text \<open>
  Claim C8. When \<^verbatim>\<open>fetch\<close> resolves, \<open>callSeal\<close> returns a triple: \<open>ok\<close> is true exactly
  when the status is in 200..299, \<open>status\<close> is the upstream status, and \<open>body\<close> is the
  parsed JSON when the content type contains \<^verbatim>\<open>application/json\<close> (the empty object when
  parsing fails) and \<^verbatim>\<open>{non_json: text}\<close> otherwise. It throws exactly when \<^verbatim>\<open>fetch\<close>
  rejects, which is the transport failure; no upstream status makes it throw.
\<close>

theorem callSeal_triple:
  "(\<forall>resp. up (seal_request ev path init) = Resolved resp \<longrightarrow>
      (\<exists>r. fst (callSeal ev up path init) = Inr r
         \<and> (sr_ok r \<longleftrightarrow> 200 \<le> resp_status resp \<and> resp_status resp \<le> 299)
         \<and> sr_status r = resp_status resp
         \<and> (\<forall>ct. resp_content_type resp = Some ct \<and> includes_str ct ''application/json'' \<longrightarrow>
               (\<forall>v. resp_json resp = Some v \<longrightarrow> sr_body r = v)
               \<and> (resp_json resp = None \<longrightarrow> sr_body r = JObj []))
         \<and> (resp_content_type resp = None
              \<or> (\<exists>ct. resp_content_type resp = Some ct \<and> \<not> includes_str ct ''application/json'') \<longrightarrow>
               (\<forall>t. resp_text resp = Some t \<longrightarrow> sr_body r = JObj [(''non_json'', JStr t)])
               \<and> (resp_text resp = None \<longrightarrow> sr_body r = JObj [(''non_json'', JStr [])]))))
   \<and> (\<forall>m. up (seal_request ev path init) = Rejected m \<longrightarrow>
          fst (callSeal ev up path init) = Inl (FetchError m))
   \<and> (isl (fst (callSeal ev up path init)) \<longleftrightarrow> (\<exists>m. up (seal_request ev path init) = Rejected m))"
proof (cases "up (seal_request ev path init)")
  case (Rejected m)
  then show ?thesis by (simp add: callSeal_def Let_def)
next
  case (Resolved resp)
  then show ?thesis
    by (auto simp: callSeal_def Let_def resp_ok_def read_body_def split: option.splits)
qed

text \<open>A 200 with JSON, a 404 whose JSON does not parse, a 502 with HTML, and a refused connection.\<close>

theorem callSeal_triple_witness:
  "fst (callSeal example_env upstream_empty_ok ''/subscription'' no_init)
     = Inr \<lparr>sr_ok = True, sr_status = 200, sr_body = JObj []\<rparr>
   \<and> fst (callSeal example_env upstream_broken_json ''/subscription'' no_init)
     = Inr \<lparr>sr_ok = False, sr_status = 404, sr_body = JObj []\<rparr>
   \<and> fst (callSeal example_env upstream_html_error ''/subscription'' no_init)
     = Inr \<lparr>sr_ok = False, sr_status = 502, sr_body = JObj [(''non_json'', JStr ''Bad Gateway'')]\<rparr>
   \<and> fst (callSeal example_env upstream_rejecting ''/subscription'' no_init)
     = Inl (FetchError ''ECONNREFUSED'')"
proof -
  have inc: "includes_str ''application/json; charset=utf-8'' ''application/json''"
    "includes_str ''application/json'' ''application/json''"
    "\<not> includes_str ''text/html'' ''application/json''"
    by simp_all
  have "\<exists>r. fst (callSeal example_env upstream_empty_ok ''/subscription'' no_init) = Inr r
      \<and> sr_ok r \<and> sr_status r = 200 \<and> sr_body r = JObj []"
    using callSeal_triple [of upstream_empty_ok example_env "''/subscription''" no_init] inc
    by (simp add: upstream_empty_ok_def json_response_def)
  moreover have "\<exists>r. fst (callSeal example_env upstream_broken_json ''/subscription'' no_init) = Inr r
      \<and> \<not> sr_ok r \<and> sr_status r = 404 \<and> sr_body r = JObj []"
    using callSeal_triple [of upstream_broken_json example_env "''/subscription''" no_init] inc
    by (simp add: upstream_broken_json_def)
  moreover have "\<exists>r. fst (callSeal example_env upstream_html_error ''/subscription'' no_init) = Inr r
      \<and> \<not> sr_ok r \<and> sr_status r = 502 \<and> sr_body r = JObj [(''non_json'', JStr ''Bad Gateway'')]"
    using callSeal_triple [of upstream_html_error example_env "''/subscription''" no_init] inc
    by (simp add: upstream_html_error_def)
  moreover have "fst (callSeal example_env upstream_rejecting ''/subscription'' no_init)
     = Inl (FetchError ''ECONNREFUSED'')"
    using callSeal_triple [of upstream_rejecting example_env "''/subscription''" no_init]
    by (simp add: upstream_rejecting_def)
  ultimately show ?thesis by auto
qed

section \<open>Facts shared by the proofs\<close>





lemma snd_catch_put: "snd (catch_put t) = snd t"
  by (cases t) (auto simp: catch_put_def split: sum.splits)

lemma snd_catch_list: "snd (catch_list t) = snd t"
  by (cases t) (auto simp: catch_list_def split: sum.splits)




section \<open>Change subscription status\<close>




section \<open>The id check\<close>



section \<open>The calls of the reschedule handler\<close>

lemma reschedule_attempt_calls:
  "snd (reschedule_attempt ev up a sid d t tz rs cs) = cs
   \<or> snd (reschedule_attempt ev up a sid d t tz rs cs)
      = cs @ [seal_request ev ''/subscription-billing-attempt''
          (put_init (JObj [(''id'', JNum a), (''subscription_id'', JNum sid),
             (''action'', JStr ''reschedule''), (''date'', JStr d), (''time'', JStr t),
             (''timezone'', JStr tz), (''reset_schedule'', rs)]))]"
  by (cases "up (seal_request ev ''/subscription-billing-attempt''
          (put_init (JObj [(''id'', JNum a), (''subscription_id'', JNum sid),
             (''action'', JStr ''reschedule''), (''date'', JStr d), (''time'', JStr t),
             (''timezone'', JStr tz), (''reset_schedule'', rs)])))")
    (simp_all add: reschedule_attempt_def callSeal_def Let_def)

lemma resolve_attempt_calls:
  "snd (resolve_attempt parse ev up sid cur)
     = [seal_request ev (''/subscription-billing-attempts?subscription_id='' @ show_jsnum sid) no_init]"
  by (cases "up (seal_request ev
        (''/subscription-billing-attempts?subscription_id='' @ show_jsnum sid) no_init)")
    (simp_all add: resolve_attempt_def callSeal_def Let_def split: sum.splits)

lemma reschedule_try_shape:
  "snd (reschedule_try reset_of parse ev up req) = []
   \<or> snd (reschedule_try reset_of parse ev up req)
      = [seal_request ev (''/subscription-billing-attempts?subscription_id=''
            @ show_jsnum (StringToNumber (params_id req))) no_init]
   \<or> (\<exists>a d t tz cs.
        (cs = [] \<or> cs = [seal_request ev (''/subscription-billing-attempts?subscription_id=''
            @ show_jsnum (StringToNumber (params_id req))) no_init])
        \<and> snd (reschedule_try reset_of parse ev up req)
           = snd (reschedule_attempt ev up a (StringToNumber (params_id req)) d t tz
                (reset_of (opt_prop (req_body req) ''reset_schedule'')) cs))"
proof (cases "truthy_num (StringToNumber (params_id req))")
  case False
  then show ?thesis by (simp add: reschedule_try_def)
next
  case sid: True
  show ?thesis
  proof (cases "reschedule_fields req")
    case (Inl e)
    with sid show ?thesis by (simp add: reschedule_try_def)
  next
    case (Inr f)
    obtain d t tz a where f: "f = (d, t, tz, a)" by (cases f) auto
    show ?thesis
    proof (cases "d = [] \<or> t = [] \<or> tz = []")
      case True
      with sid Inr f show ?thesis by (simp add: reschedule_try_def)
    next
      case filled: False
      show ?thesis
      proof (cases "truthy_num a")
        case True
        with sid Inr f filled
        have "reschedule_try reset_of parse ev up req
            = reschedule_attempt ev up a (StringToNumber (params_id req)) d t tz
                (reset_of (opt_prop (req_body req) ''reset_schedule'')) []"
          by (simp add: reschedule_try_def)
        then show ?thesis by metis
      next
        case False
        obtain r cs where r: "resolve_attempt parse ev up (StringToNumber (params_id req)) a = (r, cs)"
          by (cases "resolve_attempt parse ev up (StringToNumber (params_id req)) a") auto
        then have cs: "cs = [seal_request ev (''/subscription-billing-attempts?subscription_id=''
            @ show_jsnum (StringToNumber (params_id req))) no_init]"
          using resolve_attempt_calls [of parse ev up "StringToNumber (params_id req)" a] by simp
        show ?thesis
        proof (cases r)
          case (Inl e)
          with sid Inr f filled False r cs show ?thesis by (simp add: reschedule_try_def)
        next
          case outer: (Inr v)
          show ?thesis
          proof (cases v)
            case (Inl early)
            with outer sid Inr f filled False r cs show ?thesis by (simp add: reschedule_try_def)
          next
            case (Inr resolved)
            with outer sid \<open>reschedule_fields req = Inr f\<close> f filled False r
            have "reschedule_try reset_of parse ev up req
                = reschedule_attempt ev up resolved (StringToNumber (params_id req)) d t tz
                    (reset_of (opt_prop (req_body req) ''reset_schedule'')) cs"
              by (simp add: reschedule_try_def)
            with cs show ?thesis by metis
          qed
        qed
      qed
    qed
  qed
qed

lemma reschedule_try_calls:
  assumes "c \<in> set (snd (reschedule_try reset_of parse ev up req))"
  shows "c = seal_request ev (''/subscription-billing-attempts?subscription_id=''
                @ show_jsnum (StringToNumber (params_id req))) no_init
         \<or> (\<exists>a d t tz. c = seal_request ev ''/subscription-billing-attempt''
              (put_init (JObj [(''id'', JNum a),
                 (''subscription_id'', JNum (StringToNumber (params_id req))),
                 (''action'', JStr ''reschedule''), (''date'', JStr d), (''time'', JStr t),
                 (''timezone'', JStr tz),
                 (''reset_schedule'', reset_of (opt_prop (req_body req) ''reset_schedule''))])))"
proof -
  let ?sid = "StringToNumber (params_id req)"
  let ?c1 = "seal_request ev (''/subscription-billing-attempts?subscription_id=''
                @ show_jsnum ?sid) no_init"
  let ?rs = "reset_of (opt_prop (req_body req) ''reset_schedule'')"
  let ?calls = "snd (reschedule_try reset_of parse ev up req)"
  consider "?calls = []" | "?calls = [?c1]"
    | a d t tz cs where "cs = [] \<or> cs = [?c1]"
        "?calls = snd (reschedule_attempt ev up a ?sid d t tz ?rs cs)"
    using reschedule_try_shape [of reset_of parse ev up req] by blast
  then show ?thesis
  proof cases
    case 1
    with assms show ?thesis by simp
  next
    case 2
    with assms show ?thesis by simp
  next
    case (3 a d t tz cs)
    from reschedule_attempt_calls [of ev up a ?sid d t tz ?rs cs] 3(2) assms
    have "c \<in> set cs \<or> c = seal_request ev ''/subscription-billing-attempt''
              (put_init (JObj [(''id'', JNum a), (''subscription_id'', JNum ?sid),
                 (''action'', JStr ''reschedule''), (''date'', JStr d), (''time'', JStr t),
                 (''timezone'', JStr tz), (''reset_schedule'', ?rs)]))"
      by auto
    then show ?thesis
    proof
      assume "c \<in> set cs"
      with 3(1) show ?thesis by auto
    next
      assume "c = seal_request ev ''/subscription-billing-attempt''
              (put_init (JObj [(''id'', JNum a), (''subscription_id'', JNum ?sid),
                 (''action'', JStr ''reschedule''), (''date'', JStr d), (''time'', JStr t),
                 (''timezone'', JStr tz), (''reset_schedule'', ?rs)]))"
      then show ?thesis by (intro disjI2 exI)
    qed
  qed
qed

text \<open>
  Claim C9. Every \<^verbatim>\<open>PUT /subscription-billing-attempt\<close> that the reschedule route of
  \<^verbatim>\<open>seal-node-app/server.js\<close> issues carries \<^verbatim>\<open>reset_schedule\<close> as a boolean: false
  exactly when the caller sent \<^verbatim>\<open>false\<close>, so a caller's boolean is forwarded as it is and a
  missing one becomes true. The same route of \<^verbatim>\<open>part_000\<close> always carries the string
  \<^verbatim>\<open>"true"\<close>, also when the caller sent \<^verbatim>\<open>false\<close>: both arms of its conditional are
  \<^verbatim>\<open>"true"\<close>.
\<close>

theorem reset_schedule_forwarded:
  "(\<forall>c \<in> set (snd (route_reschedule_app parse ev up req)).
       call_url c = SEAL_BASE @ ''/subscription-billing-attempt'' \<longrightarrow>
       (\<exists>kvs. call_body c = Some (JObj kvs)
          \<and> map_of kvs ''reset_schedule''
              = Some (JBool (opt_prop (req_body req) ''reset_schedule'' \<noteq> JBool False))))
   \<and> (\<forall>c \<in> set (snd (route_reschedule_v3 parse ev up req)).
       call_url c = SEAL_BASE @ ''/subscription-billing-attempt'' \<longrightarrow>
       (\<exists>kvs. call_body c = Some (JObj kvs)
          \<and> map_of kvs ''reset_schedule'' = Some (JStr ''true'')))"
proof -
  have field: "\<exists>kvs. call_body c = Some (JObj kvs)
      \<and> map_of kvs ''reset_schedule'' = Some (reset_of (opt_prop (req_body req) ''reset_schedule''))"
    if "c \<in> set (snd (guarded ev (\<lambda>r. catch_put (reschedule_try reset_of parse ev up r)) req))"
      and "call_url c = SEAL_BASE @ ''/subscription-billing-attempt''" for c reset_of
  proof -
    from that(1) have "c \<in> set (snd (reschedule_try reset_of parse ev up req))"
      by (simp add: guarded_def snd_catch_put split: option.splits)
    from reschedule_try_calls [OF this] that(2) show ?thesis
      by (auto simp: seal_request_def put_init_def no_init_def)
  qed
  have app: "route_reschedule_app parse ev up req
      = guarded ev (\<lambda>r. catch_put (reschedule_try resetSchedule_app parse ev up r)) req"
    by (simp add: route_reschedule_app_def reschedule_app_def guarded_def split: option.splits)
  have v3: "route_reschedule_v3 parse ev up req
      = guarded ev (\<lambda>r. catch_put (reschedule_try resetSchedule_v3 parse ev up r)) req"
    by (simp add: route_reschedule_v3_def reschedule_v3_def guarded_def split: option.splits)
  show ?thesis
    using field [of _ resetSchedule_app] field [of _ resetSchedule_v3]
    unfolding app v3 by (simp add: resetSchedule_app_def resetSchedule_v3_def)
qed

text \<open>
  The caller sends \<^verbatim>\<open>reset_schedule: false\<close> with an attempt id: \<^verbatim>\<open>part_000\<close> forwards
  \<^verbatim>\<open>"true"\<close>, \<^verbatim>\<open>seal-node-app/server.js\<close> forwards \<^verbatim>\<open>false\<close>.
\<close>

theorem reset_schedule_forwarded_witness:
  "map call_body (snd (route_reschedule_v3 Map.empty example_env upstream_empty_ok
      (example_request (Some ''Bearer s3cret'') ''5'' (reschedule_body (JBool False)))))
     = [Some (JObj [(''id'', JNum (Fin 7)), (''subscription_id'', JNum (Fin 5)),
          (''action'', JStr ''reschedule''), (''date'', JStr ''2025-11-10''),
          (''time'', JStr ''09:30''), (''timezone'', JStr ''America/Chicago''),
          (''reset_schedule'', JStr ''true'')])]
   \<and> map call_body (snd (route_reschedule_app Map.empty example_env upstream_empty_ok
      (example_request (Some ''Bearer s3cret'') ''5'' (reschedule_body (JBool False)))))
     = [Some (JObj [(''id'', JNum (Fin 7)), (''subscription_id'', JNum (Fin 5)),
          (''action'', JStr ''reschedule''), (''date'', JStr ''2025-11-10''),
          (''time'', JStr ''09:30''), (''timezone'', JStr ''America/Chicago''),
          (''reset_schedule'', JBool False)])]"
proof -
  have v3: "map call_body (snd (route_reschedule_v3 Map.empty example_env upstream_empty_ok
      (example_request (Some ''Bearer s3cret'') ''5'' (reschedule_body (JBool False)))))
     = [Some (JObj [(''id'', JNum (Fin 7)), (''subscription_id'', JNum (Fin 5)),
          (''action'', JStr ''reschedule''), (''date'', JStr ''2025-11-10''),
          (''time'', JStr ''09:30''), (''timezone'', JStr ''America/Chicago''),
          (''reset_schedule'', JStr ''true'')])]"
    by code_simp
  have app: "map call_body (snd (route_reschedule_app Map.empty example_env upstream_empty_ok
      (example_request (Some ''Bearer s3cret'') ''5'' (reschedule_body (JBool False)))))
     = [Some (JObj [(''id'', JNum (Fin 7)), (''subscription_id'', JNum (Fin 5)),
          (''action'', JStr ''reschedule''), (''date'', JStr ''2025-11-10''),
          (''time'', JStr ''09:30''), (''timezone'', JStr ''America/Chicago''),
          (''reset_schedule'', JBool False)])]"
    by code_simp
  show ?thesis
    using reset_schedule_forwarded [of Map.empty example_env upstream_empty_ok
        "example_request (Some ''Bearer s3cret'') ''5'' (reschedule_body (JBool False))"]
      v3 app
    by simp
qed

section \<open>Failures never leave the 200 level\<close>






















section \<open>The attempt that is rescheduled\<close>










end
